theory Spec2Isabelle
  imports Main
begin

section \<open>The media scanner workflow machine\<close>

text \<open>
  A shallow embedding of \<^verbatim>\<open>mediaScannerMachine\<close>
  (\<^verbatim>\<open>examples/workflow-media-scanner/src/mediaScannerMachine.ts\<close>): the machine's
  types, its initial context, the table of its six state nodes and the implementations it
  is created with. The source is a declarative configuration handed to
  \<^verbatim>\<open>createMachine\<close>; how the machine it describes steps is defined after the
  configuration.
\<close>

subsection \<open>Types: input, context, events\<close>

text \<open>\<^verbatim>\<open>types.input\<close> (source lines 12--15).\<close>

record machine_input =
  input_basePath :: string
  input_destinationPath :: string

text \<open>\<^verbatim>\<open>types.context\<close> (source lines 17--27), field for field.\<close>

record machine_context =
  basePath :: string
  destinationPath :: string
  directoriesToCheck :: "string list"
  dirsToEvaluate :: "string list"
  dirsToMove :: "string list"
  filesToEmail :: "string list"
  dirsToReport :: "string list"
  processedFiles :: "string list"
  acceptedFileTypes :: "string list"

text \<open>The six state nodes of \<^verbatim>\<open>states\<close>, in the order of the source.\<close>

datatype state_value =
    idle
  | Scanning
  | CheckingFilePermissions
  | ReportingErrors
  | EvaluatingFiles
  | MovingFiles

text \<open>
  A payload the machine never looks into: what \<^verbatim>\<open>scanDirectories\<close>,
  \<^verbatim>\<open>evaluateFiles\<close> and \<^verbatim>\<open>moveFiles\<close> reject with, and what
  \<^verbatim>\<open>moveFiles\<close> resolves with.
\<close>

datatype js_value =
    JUndefined
  | JString string
  | JArray "string list"
  | JObject "(string \<times> string list) list"

text \<open>
  Modelled from the spec: the module \<^verbatim>\<open>./fileHandlers\<close> that declares the
  collaborators \<^verbatim>\<open>scanDirectories\<close>, \<^verbatim>\<open>checkFilePermissions\<close>,
  \<^verbatim>\<open>evaluateFiles\<close> and \<^verbatim>\<open>moveFiles\<close> is not among the source files, so
  the shapes of what they resolve and reject with are those of the spec's table of
  external interfaces: \<^verbatim>\<open>scanDirectories\<close> resolves with a sequence of paths,
  \<^verbatim>\<open>checkFilePermissions\<close> resolves with
  \<^verbatim>\<open>{dirsToEvaluate, dirsToReport}\<close> and rejects with \<^verbatim>\<open>{dirsToReport}\<close>,
  \<^verbatim>\<open>evaluateFiles\<close> resolves with \<^verbatim>\<open>{dirsToMove}\<close>.
\<close>

record check_output =
  out_dirsToEvaluate :: "string list"
  out_dirsToReport :: "string list"

record check_error =
  err_dirsToReport :: "string list"

record evaluate_output =
  out_dirsToMove :: "string list"

text \<open>
  The events the machine receives: the two of \<^verbatim>\<open>types.events\<close> (source line 16),
  and for each invoked actor, named by its \<^verbatim>\<open>invoke.id\<close>, the event of its promise
  resolving (with \<^verbatim>\<open>event.output\<close>) and of its promise rejecting (with
  \<^verbatim>\<open>event.error\<close>).
\<close>

datatype event =
    START_SCAN
  | RESTART
  | Done_scanLibrary "string list"
  | Error_scanLibrary js_value
  | Done_checkFilePermissions check_output
  | Error_checkFilePermissions check_error
  | Done_evaluatingFiles evaluate_output
  | Error_evaluatingFiles js_value
  | Done_moveFiles js_value
  | Error_moveFiles js_value

subsection \<open>The initial context\<close>

text \<open>\<^verbatim>\<open>context: ({ input }) => ({ ... })\<close> (source lines 29--51).\<close>

definition initial_context :: "machine_input \<Rightarrow> machine_context" where
  "initial_context input =
     \<lparr>basePath = input_basePath input,
      destinationPath = input_destinationPath input,
      directoriesToCheck = [],
      dirsToEvaluate = [],
      dirsToMove = [],
      filesToEmail = [],
      dirsToReport = [],
      processedFiles = [],
      acceptedFileTypes =
        [''mp4'', ''mkv'', ''avi'', ''mov'', ''m4v'', ''mpg'', ''mpeg'', ''wmv'', ''flv'',
         ''ts'', ''mts'']\<rparr>"

subsection \<open>The state nodes\<close>

text \<open>
  A transition object: its \<^verbatim>\<open>target\<close> and its \<^verbatim>\<open>actions\<close>. Every action of
  this machine's transitions is an \<^verbatim>\<open>assign\<close>, a function from the context to the
  updated context whose assigner has read the event that selected the transition.
\<close>

record transition_config =
  target :: state_value
  actions :: "(machine_context \<Rightarrow> machine_context) list"

text \<open>
  The transitions each state node declares for each event: \<^verbatim>\<open>on\<close> for the two
  external events, \<^verbatim>\<open>invoke.onDone\<close> and \<^verbatim>\<open>invoke.onError\<close> for the events
  of the actor the node invokes. A pair of state and event that the source declares nothing
  for has the empty list. No transition of the source has a guard.
\<close>

fun transitions :: "state_value \<Rightarrow> event \<Rightarrow> transition_config list" where
  \<comment> \<open>\<^verbatim>\<open>idle.on.START_SCAN\<close>, lines 56--60\<close>
  "transitions idle START_SCAN =
     [\<lparr>target = Scanning, actions = []\<rparr>]"
  \<comment> \<open>\<^verbatim>\<open>Scanning.invoke.onDone\<close>, lines 72--79\<close>
| "transitions Scanning (Done_scanLibrary output) =
     [\<lparr>target = CheckingFilePermissions,
       actions = [\<lambda>c. c\<lparr>directoriesToCheck := output\<rparr>]\<rparr>]"
  \<comment> \<open>\<^verbatim>\<open>Scanning.invoke.onError\<close>, lines 80--84\<close>
| "transitions Scanning (Error_scanLibrary error) =
     [\<lparr>target = ReportingErrors, actions = []\<rparr>]"
  \<comment> \<open>\<^verbatim>\<open>CheckingFilePermissions.invoke.onDone\<close>, lines 100--110\<close>
| "transitions CheckingFilePermissions (Done_checkFilePermissions output) =
     [\<lparr>target = EvaluatingFiles,
       actions = [\<lambda>c. c\<lparr>dirsToEvaluate := out_dirsToEvaluate output,
                           dirsToReport := out_dirsToReport output\<rparr>]\<rparr>]"
  \<comment> \<open>\<^verbatim>\<open>CheckingFilePermissions.invoke.onError\<close>, lines 111--120\<close>
| "transitions CheckingFilePermissions (Error_checkFilePermissions error) =
     [\<lparr>target = ReportingErrors,
       actions = [\<lambda>c. c\<lparr>dirsToReport := err_dirsToReport error\<rparr>]\<rparr>]"
  \<comment> \<open>\<^verbatim>\<open>ReportingErrors.on.RESTART\<close>, lines 130--134\<close>
| "transitions ReportingErrors RESTART =
     [\<lparr>target = idle, actions = []\<rparr>]"
  \<comment> \<open>\<^verbatim>\<open>EvaluatingFiles.invoke.onDone\<close>, lines 150--159; the node has no
      \<^verbatim>\<open>onError\<close>\<close>
| "transitions EvaluatingFiles (Done_evaluatingFiles output) =
     [\<lparr>target = MovingFiles,
       actions = [\<lambda>c. c\<lparr>dirsToMove := out_dirsToMove output\<rparr>]\<rparr>]"
  \<comment> \<open>\<^verbatim>\<open>MovingFiles.invoke.onError\<close>, lines 177--181\<close>
| "transitions MovingFiles (Error_moveFiles error) =
     [\<lparr>target = ReportingErrors, actions = []\<rparr>]"
  \<comment> \<open>\<^verbatim>\<open>MovingFiles.invoke.onDone\<close>, line 183\<close>
| "transitions MovingFiles (Done_moveFiles output) =
     [\<lparr>target = idle, actions = []\<rparr>]"
| "transitions _ _ = []"

text \<open>
  An action object as the source writes it: its \<^verbatim>\<open>type\<close> and its
  \<^verbatim>\<open>params\<close>, if it has any.
\<close>

record action_object =
  action_type :: string
  params :: "js_value option"

text \<open>
  The \<^verbatim>\<open>entry\<close> actions of each state node: only \<^verbatim>\<open>ReportingErrors\<close> has
  one, \<^verbatim>\<open>{ type: 'emailErrors' }\<close> (source lines 127--129), and it has no params.
\<close>

fun entry :: "state_value \<Rightarrow> action_object list" where
  "entry ReportingErrors = [\<lparr>action_type = ''emailErrors'', params = None\<rparr>]"
| "entry _ = []"

text \<open>
  What an invoked actor is started with: the projection of the context that the node's
  \<^verbatim>\<open>invoke.input\<close> builds for the collaborator its \<^verbatim>\<open>invoke.src\<close> calls.
\<close>

datatype invoke_input =
    ScanInput string
  | CheckInput "string list"
  | EvaluateInput "string list" "string list"
  | MoveInput "string list" string

record invoke_config =
  invoke_id :: string
  invoke_input :: "machine_context \<Rightarrow> invoke_input"

text \<open>
  The \<^verbatim>\<open>invoke\<close> of each state node: its \<^verbatim>\<open>id\<close> and its \<^verbatim>\<open>input\<close>
  (source lines 66--68, 91--95, 140--145, 166--175). The promise of \<^verbatim>\<open>src\<close> runs
  outside the machine; it comes back as one of the actor's two events.
\<close>

fun invoke :: "state_value \<Rightarrow> invoke_config option" where
  "invoke Scanning =
     Some \<lparr>invoke_id = ''scanLibrary'',
           invoke_input = (\<lambda>c. ScanInput (basePath c))\<rparr>"
| "invoke CheckingFilePermissions =
     Some \<lparr>invoke_id = ''checkFilePermissions'',
           invoke_input = (\<lambda>c. CheckInput (directoriesToCheck c))\<rparr>"
| "invoke EvaluatingFiles =
     Some \<lparr>invoke_id = ''evaluatingFiles'',
           invoke_input = (\<lambda>c. EvaluateInput (dirsToEvaluate c) (acceptedFileTypes c))\<rparr>"
| "invoke MovingFiles =
     Some \<lparr>invoke_id = ''moveFiles'',
           invoke_input = (\<lambda>c. MoveInput (dirsToMove c) (destinationPath c))\<rparr>"
| "invoke _ = None"

text \<open>
  The implementations the machine is created with, the second argument of
  \<^verbatim>\<open>createMachine\<close> (source lines 188--192): \<^verbatim>\<open>actions: {}\<close> binds no function
  to any action type. (\<^verbatim>\<open>guards\<close> and \<^verbatim>\<open>delays\<close> are empty as well, and no
  state node refers to either.)
\<close>

type_synonym action_function = "machine_context \<Rightarrow> event \<Rightarrow> unit"

definition machine_actions :: "string \<rightharpoonup> action_function" where
  "machine_actions = Map.empty"

subsection \<open>The interpreter\<close>

text \<open>
  The status of a running machine: active, or stopped by an error that no transition
  handled.
\<close>

datatype status = Active | Errored

record snapshot =
  state :: state_value
  ctx :: machine_context
  status :: status

text \<open>The machine starts in \<^verbatim>\<open>initial: 'idle'\<close> (source line 53).\<close>

definition initial_snapshot :: "machine_input \<Rightarrow> snapshot" where
  "initial_snapshot input = \<lparr>state = idle, ctx = initial_context input, status = Active\<rparr>"

text \<open>The \<^verbatim>\<open>invoke.id\<close> of the actor an event comes from, if it comes from one.\<close>

fun actor_id :: "event \<Rightarrow> string option" where
  "actor_id START_SCAN = None"
| "actor_id RESTART = None"
| "actor_id (Done_scanLibrary _) = Some ''scanLibrary''"
| "actor_id (Error_scanLibrary _) = Some ''scanLibrary''"
| "actor_id (Done_checkFilePermissions _) = Some ''checkFilePermissions''"
| "actor_id (Error_checkFilePermissions _) = Some ''checkFilePermissions''"
| "actor_id (Done_evaluatingFiles _) = Some ''evaluatingFiles''"
| "actor_id (Error_evaluatingFiles _) = Some ''evaluatingFiles''"
| "actor_id (Done_moveFiles _) = Some ''moveFiles''"
| "actor_id (Error_moveFiles _) = Some ''moveFiles''"

fun is_error_event :: "event \<Rightarrow> bool" where
  "is_error_event (Error_scanLibrary _) = True"
| "is_error_event (Error_checkFilePermissions _) = True"
| "is_error_event (Error_evaluatingFiles _) = True"
| "is_error_event (Error_moveFiles _) = True"
| "is_error_event _ = False"

text \<open>
  An action the interpreter raises: the action object, with the context and the event it
  is given to work on.
\<close>

record action_call =
  call_action :: action_object
  call_context :: machine_context
  call_event :: event

text \<open>
  What one event does: the snapshot after it, the actions raised while it was processed,
  in order, and the actor started, by its id and with its input.
\<close>

record step_result =
  snapshot_after :: snapshot
  raised :: "action_call list"
  started :: "(string \<times> invoke_input) option"

text \<open>
  The source hands its configuration to \<^verbatim>\<open>createMachine\<close> of the \<^verbatim>\<open>xstate\<close>
  package (imported on line 1), so what the machine does with an event is that library's
  reading of the state nodes above; the spec's component design states the same rules:
  \<^item> an event that the current state declares no transition for is ignored, with no
    error (\<open>unchanged\<close>);
  \<^item> otherwise exactly one transition fires, the first one declared: its context
    assignment is applied, then the target state is entered, which raises the target's
    entry actions, once each, on the updated context, and starts the one actor the target
    invokes on a projection of the updated context (\<open>enter\<close>);
  \<^item> the result of an effect that the current state did not start is discarded;
  \<^item> the rejection of the current state's own effect with no \<^verbatim>\<open>onError\<close> to
    handle it is a machine fault: the instance does not transition, and halts.
\<close>

definition unchanged :: "snapshot \<Rightarrow> step_result" where
  "unchanged snap = \<lparr>snapshot_after = snap, raised = [], started = None\<rparr>"

definition enter :: "state_value \<Rightarrow> machine_context \<Rightarrow> event \<Rightarrow> step_result" where
  "enter s c ev =
     \<lparr>snapshot_after = \<lparr>state = s, ctx = c, status = Active\<rparr>,
      raised = map (\<lambda>a. \<lparr>call_action = a, call_context = c, call_event = ev\<rparr>) (entry s),
      started = map_option (\<lambda>i. (invoke_id i, invoke_input i c)) (invoke s)\<rparr>"

definition transition :: "snapshot \<Rightarrow> event \<Rightarrow> step_result" where
  "transition snap ev =
     (if status snap \<noteq> Active then unchanged snap
      else case transitions (state snap) ev of
        t # _ \<Rightarrow> enter (target t) (fold (\<lambda>a c. a c) (actions t) (ctx snap)) ev
      | [] \<Rightarrow>
          if is_error_event ev \<and> actor_id ev = map_option invoke_id (invoke (state snap))
          then unchanged (snap\<lparr>status := Errored\<rparr>)
          else unchanged snap)"

text \<open>A sequence of events, one after the other: the result of each, in order.\<close>

fun run :: "snapshot \<Rightarrow> event list \<Rightarrow> step_result list" where
  "run snap [] = []"
| "run snap (ev # evs) =
     (let r = transition snap ev in r # run (snapshot_after r) evs)"

text \<open>
  An action object names its function by its type: the function that runs for a raised
  action is the one that the implementations given to \<^verbatim>\<open>createMachine\<close> bind to
  that type, and an action whose type they bind nothing to runs no function.
  \<open>executed\<close> keeps, of the raised actions, those that run one.
\<close>

definition executed :: "(string \<rightharpoonup> action_function) \<Rightarrow> action_call list \<Rightarrow> action_call list" where
  "executed impl calls = filter (\<lambda>a. impl (action_type (call_action a)) \<noteq> None) calls"

text \<open>
  The state an event makes the machine enter, if it makes it enter one: the target of the
  transition that fires.
\<close>

definition entered :: "snapshot \<Rightarrow> event \<Rightarrow> state_value option" where
  "entered snap ev =
     (if status snap \<noteq> Active then None
      else case transitions (state snap) ev of
        t # _ \<Rightarrow> Some (target t)
      | [] \<Rightarrow> None)"

section \<open>Properties of the machine\<close>

subsection \<open>How the interpreter steps\<close>

lemma transition_fires:
  assumes "status snap = Active" and "transitions (state snap) ev = t # ts"
  shows "transition snap ev = enter (target t) (fold (\<lambda>a c. a c) (actions t) (ctx snap)) ev"
  using assms by (simp add: transition_def)

lemma transition_ignored:
  assumes "transitions (state snap) ev = []" and "\<not> is_error_event ev"
  shows "transition snap ev = unchanged snap"
  using assms by (simp add: transition_def)

lemma transition_halted:
  assumes "status snap \<noteq> Active"
  shows "transition snap ev = unchanged snap"
  using assms by (simp add: transition_def)

lemma external_event_transitions:
  "transitions s START_SCAN = (if s = idle then [\<lparr>target = Scanning, actions = []\<rparr>] else [])"
  "transitions s RESTART = (if s = ReportingErrors then [\<lparr>target = idle, actions = []\<rparr>] else [])"
  by (cases s; simp)+

lemma raised_enter:
  "raised (enter s c ev) =
     (if s = ReportingErrors
      then [\<lparr>call_action = \<lparr>action_type = ''emailErrors'', params = None\<rparr>,
             call_context = c, call_event = ev\<rparr>]
      else [])"
  by (cases s) (simp_all add: enter_def)

lemma snapshot_after_enter:
  "snapshot_after (enter s c ev) = \<lparr>state = s, ctx = c, status = Active\<rparr>"
  by (simp add: enter_def)

subsection \<open>The external events\<close>

text \<open>
  C1: the no-op law. Whatever the state of the machine, so in every reachable one, and
  whatever its context: an external event, \<^verbatim>\<open>START_SCAN\<close> or \<^verbatim>\<open>RESTART\<close>, other
  than \<^verbatim>\<open>START_SCAN\<close> in \<^verbatim>\<open>idle\<close> and \<^verbatim>\<open>RESTART\<close> in
  \<^verbatim>\<open>ReportingErrors\<close>, is not in the state's transition table, and delivering it
  leaves the whole snapshot as it was: the state, every field of the context, and the
  status, so no error is raised; no action is raised and no actor is started either.
\<close>

theorem noop_law:
  assumes external: "ev = START_SCAN \<or> ev = RESTART"
    and not_start: "\<not> (state snap = idle \<and> ev = START_SCAN)"
    and not_restart: "\<not> (state snap = ReportingErrors \<and> ev = RESTART)"
  shows "transitions (state snap) ev = [] \<and>
         transition snap ev = \<lparr>snapshot_after = snap, raised = [], started = None\<rparr>"
proof -
  have none: "transitions (state snap) ev = []"
    using external not_start not_restart
    by (auto simp: external_event_transitions)
  have "\<not> is_error_event ev"
    using external by auto
  with none have "transition snap ev = unchanged snap"
    by (rule transition_ignored)
  with none show ?thesis
    by (simp add: unchanged_def)
qed

theorem noop_law_witness:
  "transitions Scanning RESTART = [] \<and>
   transition
     \<lparr>state = Scanning,
      ctx = initial_context \<lparr>input_basePath = ''/lib'', input_destinationPath = ''/4k''\<rparr>,
      status = Active\<rparr> RESTART =
     \<lparr>snapshot_after =
        \<lparr>state = Scanning,
         ctx = initial_context \<lparr>input_basePath = ''/lib'', input_destinationPath = ''/4k''\<rparr>,
         status = Active\<rparr>,
      raised = [], started = None\<rparr>"
  using noop_law [of RESTART
      "\<lparr>state = Scanning,
        ctx = initial_context \<lparr>input_basePath = ''/lib'', input_destinationPath = ''/4k''\<rparr>,
        status = Active\<rparr>"]
  by simp

text \<open>
  C9: from \<^verbatim>\<open>ReportingErrors\<close>, whatever the context, \<^verbatim>\<open>RESTART\<close> takes the
  machine to \<^verbatim>\<open>idle\<close> and resets no field of the context; a \<^verbatim>\<open>START_SCAN\<close>
  after it takes the machine to \<^verbatim>\<open>Scanning\<close>, still on the context that
  \<^verbatim>\<open>ReportingErrors\<close> had, and starts the scan on that context's
  \<^verbatim>\<open>basePath\<close>.
\<close>

theorem restart_keeps_context:
  "run \<lparr>state = ReportingErrors, ctx = c, status = Active\<rparr> [RESTART, START_SCAN] =
     [\<lparr>snapshot_after = \<lparr>state = idle, ctx = c, status = Active\<rparr>,
       raised = [], started = None\<rparr>,
      \<lparr>snapshot_after = \<lparr>state = Scanning, ctx = c, status = Active\<rparr>,
       raised = [], started = Some (''scanLibrary'', ScanInput (basePath c))\<rparr>]"
proof -
  let ?reporting = "\<lparr>state = ReportingErrors, ctx = c, status = Active\<rparr>"
  let ?idle = "\<lparr>state = idle, ctx = c, status = Active\<rparr>"
  have restart: "transition ?reporting RESTART =
      \<lparr>snapshot_after = ?idle, raised = [], started = None\<rparr>"
    by (simp add: transition_def enter_def)
  have start: "transition ?idle START_SCAN =
      \<lparr>snapshot_after = \<lparr>state = Scanning, ctx = c, status = Active\<rparr>,
       raised = [], started = Some (''scanLibrary'', ScanInput (basePath c))\<rparr>"
    by (simp add: transition_def enter_def)
  show ?thesis
    by (simp add: restart start)
qed

subsection \<open>The results of the invoked actors\<close>

text \<open>
  C5: for every sequence \<open>L\<close>, the empty one included, that \<^verbatim>\<open>scanDirectories\<close>
  resolves with, the machine goes from \<^verbatim>\<open>Scanning\<close> to
  \<^verbatim>\<open>CheckingFilePermissions\<close> with \<^verbatim>\<open>directoriesToCheck\<close> equal to \<open>L\<close> and
  every other field of the context as it was.
\<close>

theorem scan_done:
  "snapshot_after (transition \<lparr>state = Scanning, ctx = c, status = Active\<rparr> (Done_scanLibrary L)) =
     \<lparr>state = CheckingFilePermissions, ctx = c\<lparr>directoriesToCheck := L\<rparr>, status = Active\<rparr>"
  by (simp add: transition_fires [where t = "\<lparr>target = CheckingFilePermissions,
        actions = [\<lambda>c. c\<lparr>directoriesToCheck := L\<rparr>]\<rparr>" and ts = "[]"] snapshot_after_enter)

text \<open>
  C4: if \<^verbatim>\<open>scanDirectories\<close> rejects, with whatever payload, the machine goes from
  \<^verbatim>\<open>Scanning\<close> to \<^verbatim>\<open>ReportingErrors\<close> and the whole context,
  \<^verbatim>\<open>dirsToReport\<close> in particular, is what it was before the failure.
\<close>

theorem scan_error:
  "snapshot_after (transition \<lparr>state = Scanning, ctx = c, status = Active\<rparr> (Error_scanLibrary p)) =
     \<lparr>state = ReportingErrors, ctx = c, status = Active\<rparr>
   \<and> dirsToReport (ctx (snapshot_after
        (transition \<lparr>state = Scanning, ctx = c, status = Active\<rparr> (Error_scanLibrary p)))) =
     dirsToReport c"
  by (simp add: transition_def enter_def)

text \<open>
  C6: if \<^verbatim>\<open>checkFilePermissions\<close> resolves with
  \<^verbatim>\<open>{dirsToEvaluate: E, dirsToReport: R}\<close>, the machine goes from
  \<^verbatim>\<open>CheckingFilePermissions\<close> to \<^verbatim>\<open>EvaluatingFiles\<close> with
  \<^verbatim>\<open>dirsToEvaluate\<close> equal to \<open>E\<close> and \<^verbatim>\<open>dirsToReport\<close> equal to \<open>R\<close>, both
  from the result (and the other fields of the context as they were).
\<close>

theorem check_done:
  "snapshot_after
     (transition \<lparr>state = CheckingFilePermissions, ctx = c, status = Active\<rparr>
       (Done_checkFilePermissions \<lparr>out_dirsToEvaluate = E, out_dirsToReport = R\<rparr>)) =
     \<lparr>state = EvaluatingFiles, ctx = c\<lparr>dirsToEvaluate := E, dirsToReport := R\<rparr>,
      status = Active\<rparr>"
  by (simp add: transition_def enter_def)

text \<open>
  C3: if \<^verbatim>\<open>checkFilePermissions\<close> rejects with the failure payload
  \<^verbatim>\<open>{dirsToReport: R}\<close>, the machine goes from \<^verbatim>\<open>CheckingFilePermissions\<close> to
  \<^verbatim>\<open>ReportingErrors\<close> and sets \<^verbatim>\<open>dirsToReport\<close> to \<open>R\<close>; no other field of
  the context changes.
\<close>

theorem check_error:
  "snapshot_after
     (transition \<lparr>state = CheckingFilePermissions, ctx = c, status = Active\<rparr>
       (Error_checkFilePermissions \<lparr>err_dirsToReport = R\<rparr>)) =
     \<lparr>state = ReportingErrors, ctx = c\<lparr>dirsToReport := R\<rparr>, status = Active\<rparr>"
proof -
  have "transitions CheckingFilePermissions (Error_checkFilePermissions \<lparr>err_dirsToReport = R\<rparr>) =
      [\<lparr>target = ReportingErrors, actions = [\<lambda>c. c\<lparr>dirsToReport := R\<rparr>]\<rparr>]"
    by simp
  then have "transition \<lparr>state = CheckingFilePermissions, ctx = c, status = Active\<rparr>
        (Error_checkFilePermissions \<lparr>err_dirsToReport = R\<rparr>) =
      enter ReportingErrors (c\<lparr>dirsToReport := R\<rparr>)
        (Error_checkFilePermissions \<lparr>err_dirsToReport = R\<rparr>)"
    by (simp add: transition_def)
  then show ?thesis
    by (simp add: snapshot_after_enter)
qed

text \<open>
  C7: in \<^verbatim>\<open>EvaluatingFiles\<close>, \<^verbatim>\<open>evaluateFiles\<close> resolving with
  \<^verbatim>\<open>{dirsToMove: M}\<close> takes the machine to \<^verbatim>\<open>MovingFiles\<close> with
  \<^verbatim>\<open>dirsToMove\<close> equal to \<open>M\<close>. For \<^verbatim>\<open>evaluateFiles\<close> rejecting the state
  declares no transition at all (it has no \<^verbatim>\<open>onError\<close>): the machine stays in
  \<^verbatim>\<open>EvaluatingFiles\<close> on the context it had, halted by the unhandled error, with no
  action raised and no actor started; and in no state whatever does an evaluation failure
  change the state or the context.
\<close>

theorem evaluate_done_and_unhandled_error:
  "snapshot_after
     (transition \<lparr>state = EvaluatingFiles, ctx = c, status = Active\<rparr>
       (Done_evaluatingFiles \<lparr>out_dirsToMove = M\<rparr>)) =
     \<lparr>state = MovingFiles, ctx = c\<lparr>dirsToMove := M\<rparr>, status = Active\<rparr>
   \<and> transitions EvaluatingFiles (Error_evaluatingFiles p) = []
   \<and> transition \<lparr>state = EvaluatingFiles, ctx = c, status = Active\<rparr> (Error_evaluatingFiles p) =
     \<lparr>snapshot_after = \<lparr>state = EvaluatingFiles, ctx = c, status = Errored\<rparr>,
      raised = [], started = None\<rparr>
   \<and> state (snapshot_after (transition snap (Error_evaluatingFiles p))) = state snap
   \<and> ctx (snapshot_after (transition snap (Error_evaluatingFiles p))) = ctx snap"
proof -
  have resolved: "snapshot_after
      (transition \<lparr>state = EvaluatingFiles, ctx = c, status = Active\<rparr>
        (Done_evaluatingFiles \<lparr>out_dirsToMove = M\<rparr>)) =
      \<lparr>state = MovingFiles, ctx = c\<lparr>dirsToMove := M\<rparr>, status = Active\<rparr>"
    by (simp add: transition_def enter_def)
  have no_edge: "transitions s (Error_evaluatingFiles p) = []" for s
    by (cases s) simp_all
  have fault: "transition \<lparr>state = EvaluatingFiles, ctx = c, status = Active\<rparr>
        (Error_evaluatingFiles p) =
      \<lparr>snapshot_after = \<lparr>state = EvaluatingFiles, ctx = c, status = Errored\<rparr>,
       raised = [], started = None\<rparr>"
    by (simp add: transition_def unchanged_def)
  have frame: "state (snapshot_after (transition snap (Error_evaluatingFiles p))) = state snap
      \<and> ctx (snapshot_after (transition snap (Error_evaluatingFiles p))) = ctx snap"
    by (simp add: transition_def unchanged_def no_edge)
  from resolved no_edge [of EvaluatingFiles] fault frame show ?thesis
    by blast
qed

text \<open>
  C8: in \<^verbatim>\<open>MovingFiles\<close>, \<^verbatim>\<open>moveFiles\<close> resolving takes the machine to
  \<^verbatim>\<open>idle\<close> and \<^verbatim>\<open>moveFiles\<close> rejecting takes it to \<^verbatim>\<open>ReportingErrors\<close>;
  either way the context stays as it was, whatever the output and whatever the failure
  payload.
\<close>

theorem move_done_and_error:
  "snapshot_after (transition \<lparr>state = MovingFiles, ctx = c, status = Active\<rparr> (Done_moveFiles p)) =
     \<lparr>state = idle, ctx = c, status = Active\<rparr>
   \<and> snapshot_after (transition \<lparr>state = MovingFiles, ctx = c, status = Active\<rparr> (Error_moveFiles q)) =
     \<lparr>state = ReportingErrors, ctx = c, status = Active\<rparr>"
proof
  show "snapshot_after (transition \<lparr>state = MovingFiles, ctx = c, status = Active\<rparr> (Done_moveFiles p)) =
      \<lparr>state = idle, ctx = c, status = Active\<rparr>"
    by (simp add: transition_fires [where t = "\<lparr>target = idle, actions = []\<rparr>" and ts = "[]"]
        snapshot_after_enter)
next
  show "snapshot_after (transition \<lparr>state = MovingFiles, ctx = c, status = Active\<rparr> (Error_moveFiles q)) =
      \<lparr>state = ReportingErrors, ctx = c, status = Active\<rparr>"
    by (simp add: transition_fires [where t = "\<lparr>target = ReportingErrors, actions = []\<rparr>" and ts = "[]"]
        snapshot_after_enter)
qed

subsection \<open>The entry action of the error state\<close>

text \<open>
  What the machine does on entering \<^verbatim>\<open>ReportingErrors\<close>: on every entry, and at no
  other point (not on an event that enters another state or none, and not when the machine
  starts), it raises exactly one entry action, of type \<^verbatim>\<open>emailErrors\<close> and without
  params, on the context that \<^verbatim>\<open>ReportingErrors\<close> is entered with, so on the
  \<^verbatim>\<open>dirsToReport\<close> of that context; a function runs for it, once, exactly when the
  implementations bind one to \<^verbatim>\<open>emailErrors\<close>.
\<close>

theorem emailErrors_raised_on_entry:
  "raised (transition snap ev) =
     (if entered snap ev = Some ReportingErrors
      then [\<lparr>call_action = \<lparr>action_type = ''emailErrors'', params = None\<rparr>,
             call_context = ctx (snapshot_after (transition snap ev)),
             call_event = ev\<rparr>]
      else [])
   \<and> executed impl (raised (transition snap ev)) =
     (if entered snap ev = Some ReportingErrors \<and> impl ''emailErrors'' \<noteq> None
      then [\<lparr>call_action = \<lparr>action_type = ''emailErrors'', params = None\<rparr>,
             call_context = ctx (snapshot_after (transition snap ev)),
             call_event = ev\<rparr>]
      else [])
   \<and> entry (state (initial_snapshot input)) = []"
proof -
  have r: "raised (transition snap ev) =
     (if entered snap ev = Some ReportingErrors
      then [\<lparr>call_action = \<lparr>action_type = ''emailErrors'', params = None\<rparr>,
             call_context = ctx (snapshot_after (transition snap ev)),
             call_event = ev\<rparr>]
      else [])"
  proof (cases "status snap = Active")
    case False
    then show ?thesis
      by (simp add: transition_halted unchanged_def entered_def)
  next
    case True
    show ?thesis
    proof (cases "transitions (state snap) ev")
      case Nil
      with True show ?thesis
        by (simp add: transition_def unchanged_def entered_def)
    next
      case (Cons t ts)
      with True show ?thesis
        by (simp add: transition_fires [OF True Cons] raised_enter snapshot_after_enter
            entered_def)
    qed
  qed
  have e: "executed impl (raised (transition snap ev)) =
     (if entered snap ev = Some ReportingErrors \<and> impl ''emailErrors'' \<noteq> None
      then [\<lparr>call_action = \<lparr>action_type = ''emailErrors'', params = None\<rparr>,
             call_context = ctx (snapshot_after (transition snap ev)),
             call_event = ev\<rparr>]
      else [])"
    unfolding r by (simp add: executed_def)
  have i: "entry (state (initial_snapshot input)) = []"
    by (simp add: initial_snapshot_def)
  from r e i show ?thesis
    by blast
qed

text \<open>
  C2: on entry to \<^verbatim>\<open>ReportingErrors\<close> the notify-errors collaborator is to be
  invoked exactly once, with \<^verbatim>\<open>dirsToReport\<close> as its input. The source does not do
  it. Here the scan of \<^verbatim>\<open>/lib\<close> rejects and the machine enters
  \<^verbatim>\<open>ReportingErrors\<close>; the one entry action raised, \<^verbatim>\<open>emailErrors\<close>, carries no
  params, the implementations the machine is created with (\<^verbatim>\<open>actions: {}\<close>) bind no
  function to it, and so no function runs on this entry: nothing is notified.
\<close>

theorem emailErrors_unbound_on_scan_failure:
  "state (snapshot_after
      (transition
        \<lparr>state = Scanning,
         ctx = initial_context \<lparr>input_basePath = ''/lib'', input_destinationPath = ''/4k''\<rparr>,
         status = Active\<rparr>
        (Error_scanLibrary (JString ''ENOENT'')))) = ReportingErrors
   \<and> map call_action
       (raised
         (transition
           \<lparr>state = Scanning,
            ctx = initial_context \<lparr>input_basePath = ''/lib'', input_destinationPath = ''/4k''\<rparr>,
            status = Active\<rparr>
           (Error_scanLibrary (JString ''ENOENT'')))) =
     [\<lparr>action_type = ''emailErrors'', params = None\<rparr>]
   \<and> machine_actions ''emailErrors'' = None
   \<and> executed machine_actions
       (raised
         (transition
           \<lparr>state = Scanning,
            ctx = initial_context \<lparr>input_basePath = ''/lib'', input_destinationPath = ''/4k''\<rparr>,
            status = Active\<rparr>
           (Error_scanLibrary (JString ''ENOENT'')))) = []"
  by (simp add: transition_def enter_def executed_def machine_actions_def)

subsection \<open>A cycle with no failure\<close>

text \<open>
  C10: along a cycle from \<^verbatim>\<open>idle\<close> in which the scan resolves,
  \<^verbatim>\<open>checkFilePermissions\<close> resolves with \<^verbatim>\<open>dirsToReport\<close> equal to \<open>R\<close>, for
  every \<open>R\<close> and so for every non-empty one, and \<^verbatim>\<open>evaluateFiles\<close> and
  \<^verbatim>\<open>moveFiles\<close> both resolve, the machine goes through \<^verbatim>\<open>Scanning\<close>,
  \<^verbatim>\<open>CheckingFilePermissions\<close>, \<^verbatim>\<open>EvaluatingFiles\<close> and \<^verbatim>\<open>MovingFiles\<close>
  back to \<^verbatim>\<open>idle\<close>: it never enters \<^verbatim>\<open>ReportingErrors\<close>, no action is raised at
  any step, the error notification least of all, and the cycle ends in \<^verbatim>\<open>idle\<close> with
  \<open>R\<close> still in \<^verbatim>\<open>dirsToReport\<close>.
\<close>

theorem unreported_permission_failures:
  "(let rs = run \<lparr>state = idle, ctx = c, status = Active\<rparr>
       [START_SCAN,
        Done_scanLibrary L,
        Done_checkFilePermissions \<lparr>out_dirsToEvaluate = E, out_dirsToReport = R\<rparr>,
        Done_evaluatingFiles \<lparr>out_dirsToMove = M\<rparr>,
        Done_moveFiles p]
    in map (\<lambda>r. state (snapshot_after r)) rs =
         [Scanning, CheckingFilePermissions, EvaluatingFiles, MovingFiles, idle]
       \<and> concat (map raised rs) = []
       \<and> snapshot_after (last rs) =
         \<lparr>state = idle,
          ctx = c\<lparr>directoriesToCheck := L, dirsToEvaluate := E, dirsToReport := R,
                  dirsToMove := M\<rparr>,
          status = Active\<rparr>
       \<and> dirsToReport (ctx (snapshot_after (last rs))) = R)"
  by (simp add: Let_def transition_def enter_def)

end
